theory Spec2Isabelle
  imports Main "HOL-Library.Word"
begin

section \<open>The Trillian log client of rekor (pkg/api/trillian\_client.go)\<close>

text \<open>
  The file under verification is a thin client over a remote, untrusted Merkle-tree log
  (Trillian).  Every operation is one or two remote procedure calls, some logging, and a
  local decision about what to hand back to the caller.  The embedding makes each of these
  explicit:
  \<^item> protobuf messages are records; a Go pointer that may be \<open>nil\<close> is an \<open>option\<close>;
  \<^item> the gRPC stubs \<open>trillian.TrillianLogClient\<close> and \<open>trillian.TrillianAdminClient\<close> are
    interfaces, so they are records of functions over a backend state \<open>'b\<close> that the remote
    side may change at every call;
  \<^item> the two library routines with real content (\<open>LogRootV1.UnmarshalBinary\<close> and
    \<open>LogVerifier.VerifyInclusionProof\<close>) and \<open>client.InitLog\<close> are parameters;
  \<^item> every remote call, every verifier call and every log line is appended to a trace, so
    that "which call was made, with which context and arguments, in which order" is a
    statement about a value;
  \<^item> an operation either returns its Go result pair, or panics (nil pointer dereference),
    or ends the process (\<open>Logger.Fatal\<close>).
\<close>

subsection \<open>Machine integers, byte strings, durations, contexts\<close>

type_synonym bytes = "8 word list"
type_synonym int64 = "64 word"
type_synonym uint64 = "64 word"
type_synonym int32 = "32 word"

text \<open>Go's conversion \<open>int64(x)\<close> of a \<open>uint64\<close> keeps the 64 bits and reads them signed.\<close>

definition int64_of_uint64 :: "uint64 \<Rightarrow> int64" where
  "int64_of_uint64 x = ucast x"

text \<open>\<open>time.Duration\<close> counts nanoseconds.\<close>

type_synonym Duration = int

definition Second :: Duration where
  "Second = 1000000000"

definition Hour :: Duration where
  "Hour = 3600 * Second"

text \<open>
  A \<open>context.Context\<close> is either the background context, which has no deadline, or a
  context derived from a parent by \<open>context.WithTimeout\<close>.  \<open>Deadline\<close> is the time left
  from the moment of creation; a derived context never outlives its parent.
\<close>

datatype Context = Background | WithTimeout Context Duration

fun Deadline :: "Context \<Rightarrow> Duration option" where
  "Deadline Background = None"
| "Deadline (WithTimeout parent d) =
     (case Deadline parent of None \<Rightarrow> Some d | Some p \<Rightarrow> Some (min p d))"

subsection \<open>gRPC status codes and errors\<close>

text \<open>\<open>codes.Code\<close> is a \<open>uint32\<close>; the constants are those of google.golang.org/grpc/codes.\<close>

type_synonym Code = "32 word"

definition codes_OK :: Code where "codes_OK = 0"
definition codes_Canceled :: Code where "codes_Canceled = 1"
definition codes_Unknown :: Code where "codes_Unknown = 2"
definition codes_InvalidArgument :: Code where "codes_InvalidArgument = 3"
definition codes_DeadlineExceeded :: Code where "codes_DeadlineExceeded = 4"
definition codes_NotFound :: Code where "codes_NotFound = 5"
definition codes_AlreadyExists :: Code where "codes_AlreadyExists = 6"
definition codes_Unavailable :: Code where "codes_Unavailable = 14"

text \<open>
  A Go \<open>error\<close> value is either one that carries a gRPC status (what a gRPC stub returns
  when a call fails, locally or remotely) or any other error.  \<open>nil\<close> is \<open>None\<close>.
\<close>

datatype error = StatusError Code string | PlainError string

text \<open>\<open>status.Code(err)\<close>: \<open>OK\<close> for \<open>nil\<close>, the carried code for a status error,
  \<open>Unknown\<close> for everything else.\<close>

fun status_Code :: "error option \<Rightarrow> Code" where
  "status_Code None = codes_OK"
| "status_Code (Some (StatusError c m)) = c"
| "status_Code (Some (PlainError m)) = codes_Unknown"

subsection \<open>Messages\<close>

text \<open>Only the fields the client reads or writes are kept.  Field names carry a short
  prefix of their message, since several messages share \<open>LogId\<close>, \<open>TreeSize\<close>, \<open>Proof\<close>.\<close>

record LogRootV1 =
  TreeSize :: uint64
  RootHash :: bytes
  TimestampNanos :: uint64
  Revision :: uint64
  Metadata :: bytes

text \<open>The zero value \<open>types.LogRootV1{}\<close>.\<close>

definition empty_LogRootV1 :: LogRootV1 where
  "empty_LogRootV1 =
     \<lparr>TreeSize = 0, RootHash = [], TimestampNanos = 0, Revision = 0, Metadata = []\<rparr>"

record GetLatestSignedLogRootRequest =
  rootRq_LogId :: int64
  rootRq_FirstTreeSize :: int64

record SignedLogRoot =
  slr_LogRoot :: bytes
  slr_LogRootSignature :: bytes

record GetLatestSignedLogRootResponse =
  rootRs_SignedLogRoot :: "SignedLogRoot option"

record LogLeaf =
  leaf_MerkleLeafHash :: bytes
  leaf_LeafValue :: bytes
  leaf_LeafIndex :: int64

record QueueLeafRequest =
  queueRq_LogId :: int64
  queueRq_Leaf :: "LogLeaf option"

record rpc_Status =
  st_Code :: int32
  st_Message :: string

record QueuedLogLeaf =
  qleaf_Leaf :: "LogLeaf option"
  qleaf_Status :: "rpc_Status option"

record QueueLeafResponse =
  queueRs_QueuedLeaf :: "QueuedLogLeaf option"

record GetLeavesByHashRequest =
  byHashRq_LogId :: int64
  byHashRq_LeafHash :: "bytes list"

record GetLeavesByHashResponse =
  byHashRs_Leaves :: "LogLeaf list"

record GetLeavesByIndexRequest =
  byIndexRq_LogId :: int64
  byIndexRq_LeafIndex :: "int64 list"

record GetLeavesByIndexResponse =
  byIndexRs_Leaves :: "LogLeaf list"

record GetInclusionProofByHashRequest =
  inclRq_LogId :: int64
  inclRq_LeafHash :: bytes
  inclRq_TreeSize :: int64

record Proof =
  proof_LeafIndex :: int64
  proof_Hashes :: "bytes list"

record GetInclusionProofByHashResponse =
  inclRs_Proof :: "Proof list"

record GetConsistencyProofRequest =
  consRq_LogId :: int64
  consRq_FirstTreeSize :: int64
  consRq_SecondTreeSize :: int64

record GetConsistencyProofResponse =
  consRs_Proof :: "Proof option"

text \<open>The nil-safe protobuf getters used by \<open>addLeaf\<close>: a getter called on a nil message
  returns the zero value of the field.\<close>

fun GetStatus :: "QueuedLogLeaf option \<Rightarrow> rpc_Status option" where
  "GetStatus None = None"
| "GetStatus (Some q) = qleaf_Status q"

fun GetCode :: "rpc_Status option \<Rightarrow> int32" where
  "GetCode None = 0"
| "GetCode (Some s) = st_Code s"

text \<open>The conversion \<open>codes.Code(c)\<close> of an \<open>int32\<close> keeps the 32 bits.\<close>

definition codes_Code :: "int32 \<Rightarrow> Code" where
  "codes_Code c = ucast c"

subsection \<open>Administrative messages\<close>

datatype TreeType =
  TreeType_UNKNOWN_TREE_TYPE | TreeType_LOG | TreeType_MAP | TreeType_PREORDERED_LOG

datatype TreeState =
  TreeState_UNKNOWN_TREE_STATE | TreeState_ACTIVE | TreeState_FROZEN
  | TreeState_DEPRECATED_SOFT_DELETED | TreeState_DEPRECATED_HARD_DELETED | TreeState_DRAINING

datatype HashStrategy =
  HashStrategy_UNKNOWN_HASH_STRATEGY | HashStrategy_RFC6962_SHA256
  | HashStrategy_TEST_MAP_HASHER | HashStrategy_OBJECT_RFC6962_SHA256
  | HashStrategy_CONIKS_SHA512_256 | HashStrategy_CONIKS_SHA256

datatype HashAlgorithm = DigitallySigned_NONE | DigitallySigned_SHA256

datatype SignatureAlgorithm =
  DigitallySigned_ANONYMOUS | DigitallySigned_RSA | DigitallySigned_ECDSA

datatype EllipticCurve =
  ECDSA_DEFAULT_CURVE | ECDSA_P256 | ECDSA_P384 | ECDSA_P521

datatype Specification = Specification_EcdsaParams EllipticCurve | Specification_RsaParams int32

record pb_Duration =
  dur_Seconds :: int
  dur_Nanos :: int

text \<open>\<open>ptypes.DurationProto\<close>: whole seconds and the remaining nanoseconds, both truncated
  towards zero as Go's \<open>/\<close> and \<open>%\<close> do.\<close>

definition DurationProto :: "Duration \<Rightarrow> pb_Duration" where
  "DurationProto d =
     \<lparr>dur_Seconds = sgn d * (\<bar>d\<bar> div Second), dur_Nanos = sgn d * (\<bar>d\<bar> mod Second)\<rparr>"

record Tree =
  tree_TreeId :: int64
  tree_TreeState :: TreeState
  tree_TreeType :: TreeType
  tree_HashStrategy :: HashStrategy
  tree_HashAlgorithm :: HashAlgorithm
  tree_SignatureAlgorithm :: SignatureAlgorithm
  tree_MaxRootDuration :: "pb_Duration option"

record ListTreesRequest =
  listRq_ShowDeleted :: bool

record ListTreesResponse =
  listRs_Tree :: "Tree list"

record CreateTreeRequest =
  createRq_Tree :: "Tree option"
  createRq_KeySpec :: "Specification option"

subsection \<open>The client's own types\<close>

text \<open>The struct \<open>Response\<close> of the source, with its field names.\<close>

record Response =
  status :: Code
  getAddResult :: "QueueLeafResponse option"
  getLeafResult :: "GetLeavesByHashResponse option"
  getProofResult :: "GetInclusionProofByHashResponse option"
  getLeafByIndexResult :: "GetLeavesByIndexResponse option"
  getLatestResult :: "GetLatestSignedLogRootResponse option"
  getConsistencyProofResult :: "GetConsistencyProofResponse option"

text \<open>The zero value \<open>Response{}\<close>: status 0 (\<open>OK\<close>) and every pointer nil.\<close>

definition empty_Response :: Response where
  "empty_Response =
     \<lparr>status = 0, getAddResult = None, getLeafResult = None, getProofResult = None,
      getLeafByIndexResult = None, getLatestResult = None, getConsistencyProofResult = None\<rparr>"

text \<open>The interface \<open>trillian.TrillianLogClient\<close>: each method takes the context and the
  request, and answers with Go's pair (response pointer, error); the remote side owns a
  state of type \<open>'b\<close> that a call may change.\<close>

record 'b TrillianLogClient =
  GetLatestSignedLogRoot ::
    "Context \<Rightarrow> GetLatestSignedLogRootRequest \<Rightarrow> 'b
      \<Rightarrow> (GetLatestSignedLogRootResponse option \<times> error option) \<times> 'b"
  QueueLeaf ::
    "Context \<Rightarrow> QueueLeafRequest \<Rightarrow> 'b \<Rightarrow> (QueueLeafResponse option \<times> error option) \<times> 'b"
  GetLeavesByHash ::
    "Context \<Rightarrow> GetLeavesByHashRequest \<Rightarrow> 'b
      \<Rightarrow> (GetLeavesByHashResponse option \<times> error option) \<times> 'b"
  GetLeavesByIndex ::
    "Context \<Rightarrow> GetLeavesByIndexRequest \<Rightarrow> 'b
      \<Rightarrow> (GetLeavesByIndexResponse option \<times> error option) \<times> 'b"
  GetInclusionProofByHash ::
    "Context \<Rightarrow> GetInclusionProofByHashRequest \<Rightarrow> 'b
      \<Rightarrow> (GetInclusionProofByHashResponse option \<times> error option) \<times> 'b"
  GetConsistencyProof ::
    "Context \<Rightarrow> GetConsistencyProofRequest \<Rightarrow> 'b
      \<Rightarrow> (GetConsistencyProofResponse option \<times> error option) \<times> 'b"

record 'b TrillianAdminClient =
  ListTrees ::
    "Context \<Rightarrow> ListTreesRequest \<Rightarrow> 'b \<Rightarrow> (ListTreesResponse option \<times> error option) \<times> 'b"
  CreateTree ::
    "Context \<Rightarrow> CreateTreeRequest \<Rightarrow> 'b \<Rightarrow> (Tree option \<times> error option) \<times> 'b"

text \<open>The struct \<open>TrillianClient\<close> and its constructor.\<close>

record 'b TrillianClient =
  client :: "'b TrillianLogClient"
  logID :: int64

definition TrillianClientInstance :: "'b TrillianLogClient \<Rightarrow> int64 \<Rightarrow> 'b TrillianClient" where
  "TrillianClientInstance c tLogID = \<lparr>client = c, logID = tLogID\<rparr>"

text \<open>The library routines taken as parameters: \<open>UnmarshalBinary\<close> decodes the signed root
  blob or fails; \<open>VerifyInclusionProof\<close> of the RFC 6962 log verifier takes the leaf index,
  the tree size, the proof hashes, the root hash and the leaf hash, and answers \<open>nil\<close> or an
  error.\<close>

record deps =
  UnmarshalBinary :: "bytes \<Rightarrow> error + LogRootV1"
  VerifyInclusionProof :: "int64 \<Rightarrow> int64 \<Rightarrow> bytes list \<Rightarrow> bytes \<Rightarrow> bytes \<Rightarrow> error option"

subsection \<open>Effects: the trace and the ways an operation can end\<close>

datatype event =
    Call_GetLatestSignedLogRoot Context GetLatestSignedLogRootRequest
  | Call_QueueLeaf Context QueueLeafRequest
  | Call_GetLeavesByHash Context GetLeavesByHashRequest
  | Call_GetLeavesByIndex Context GetLeavesByIndexRequest
  | Call_GetInclusionProofByHash Context GetInclusionProofByHashRequest
  | Call_GetConsistencyProof Context GetConsistencyProofRequest
  | Call_ListTrees Context ListTreesRequest
  | Call_CreateTree Context CreateTreeRequest
  | Call_InitLog Context "Tree option"
  | Call_VerifyInclusionProof int64 int64 "bytes list" bytes bytes
  | Println error
  | Logger_Infof nat nat bytes
  | Logger_Fatal error

record 'b world =
  backend :: 'b
  trace :: "event list"

text \<open>\<open>Return\<close> is a normal return with Go's result pair; \<open>Panic\<close> is the run-time panic of
  a nil pointer dereference; \<open>Exit\<close> is \<open>os.Exit(1)\<close>, which \<open>Logger.Fatal\<close> calls after
  writing its message.\<close>

datatype 'a outcome = Return 'a | Panic | Exit

text \<open>Which events are remote calls, and which context a remote call carried.\<close>

fun call_context :: "event \<Rightarrow> Context option" where
  "call_context (Call_GetLatestSignedLogRoot c r) = Some c"
| "call_context (Call_QueueLeaf c r) = Some c"
| "call_context (Call_GetLeavesByHash c r) = Some c"
| "call_context (Call_GetLeavesByIndex c r) = Some c"
| "call_context (Call_GetInclusionProofByHash c r) = Some c"
| "call_context (Call_GetConsistencyProof c r) = Some c"
| "call_context (Call_ListTrees c r) = Some c"
| "call_context (Call_CreateTree c r) = Some c"
| "call_context (Call_InitLog c t) = None"
| "call_context (Call_VerifyInclusionProof i n hs rh lh) = None"
| "call_context (Println e) = None"
| "call_context (Logger_Infof i j h) = None"
| "call_context (Logger_Fatal e) = None"

definition is_remote_call :: "event \<Rightarrow> bool" where
  "is_remote_call e = (call_context e \<noteq> None)"

fun is_verifier_call :: "event \<Rightarrow> bool" where
  "is_verifier_call (Call_VerifyInclusionProof i n hs rh lh) = True"
| "is_verifier_call e = False"

fun is_creation_call :: "event \<Rightarrow> bool" where
  "is_creation_call (Call_CreateTree c r) = True"
| "is_creation_call (Call_InitLog c t) = True"
| "is_creation_call e = False"

subsection \<open>The operations\<close>

text \<open>\<open>root\<close> (lines 60-73).  The field access \<open>resp.SignedLogRoot.LogRoot\<close> dereferences
  both pointers without a check.\<close>

definition root ::
  "deps \<Rightarrow> 'b TrillianClient \<Rightarrow> 'b world \<Rightarrow> (LogRootV1 \<times> error option) outcome \<times> 'b world" where
  "root d t w =
     (let rqst = \<lparr>rootRq_LogId = logID t, rootRq_FirstTreeSize = 0\<rparr>;
          ((resp, err), b1) = GetLatestSignedLogRoot (client t) Background rqst (backend w);
          w1 = \<lparr>backend = b1, trace = trace w @ [Call_GetLatestSignedLogRoot Background rqst]\<rparr>
      in case err of
           Some e \<Rightarrow> (Return (empty_LogRootV1, Some e), w1)
         | None \<Rightarrow>
            (case resp of
               None \<Rightarrow> (Panic, w1)
             | Some r \<Rightarrow>
                (case rootRs_SignedLogRoot r of
                   None \<Rightarrow> (Panic, w1)
                 | Some slr \<Rightarrow>
                    (case UnmarshalBinary d (slr_LogRoot slr) of
                       Inl e \<Rightarrow> (Return (empty_LogRootV1, Some e), w1)
                     | Inr lr \<Rightarrow> (Return (lr, None), w1)))))"

text \<open>\<open>addLeaf\<close> (lines 75-92).  The error of the remote call is printed and then dropped;
  \<open>resp.QueuedLeaf\<close> is a field access on \<open>resp\<close>, the two getters after it are nil-safe.\<close>

definition addLeaf ::
  "'b TrillianClient \<Rightarrow> bytes \<Rightarrow> 'b world \<Rightarrow> (Response option \<times> error option) outcome \<times> 'b world" where
  "addLeaf t byteValue w =
     (let leaf = \<lparr>leaf_MerkleLeafHash = [], leaf_LeafValue = byteValue, leaf_LeafIndex = 0\<rparr>;
          rqst = \<lparr>queueRq_LogId = logID t, queueRq_Leaf = Some leaf\<rparr>;
          ((resp, err), b1) = QueueLeaf (client t) Background rqst (backend w);
          w1 = \<lparr>backend = b1, trace = trace w @ [Call_QueueLeaf Background rqst]\<rparr>;
          w2 = (case err of
                  Some e \<Rightarrow> w1\<lparr>trace := trace w1 @ [Println e]\<rparr>
                | None \<Rightarrow> w1)
      in case resp of
           None \<Rightarrow> (Panic, w2)
         | Some r \<Rightarrow>
            (Return
               (Some (empty_Response
                  \<lparr>status := codes_Code (GetCode (GetStatus (queueRs_QueuedLeaf r))),
                   getAddResult := resp\<rparr>),
                None),
             w2))"

text \<open>\<open>getLeafByHash\<close> (lines 94-109).  On an error of the remote call \<open>Logger.Fatal\<close> writes
  the error and ends the process; nothing is returned.\<close>

definition getLeafByHash ::
  "'b TrillianClient \<Rightarrow> bytes list \<Rightarrow> 'b world
    \<Rightarrow> (Response option \<times> error option) outcome \<times> 'b world" where
  "getLeafByHash t hashValues w =
     (let rqst = \<lparr>byHashRq_LogId = logID t, byHashRq_LeafHash = hashValues\<rparr>;
          ((resp, err), b1) = GetLeavesByHash (client t) Background rqst (backend w);
          w1 = \<lparr>backend = b1, trace = trace w @ [Call_GetLeavesByHash Background rqst]\<rparr>
      in case err of
           Some e \<Rightarrow> (Exit, w1\<lparr>trace := trace w1 @ [Logger_Fatal e]\<rparr>)
         | None \<Rightarrow>
            (Return
               (Some (empty_Response\<lparr>status := status_Code err, getLeafResult := resp\<rparr>), None),
             w1))"

text \<open>\<open>getLeafByIndex\<close> (lines 111-126).\<close>

definition getLeafByIndex ::
  "'b TrillianClient \<Rightarrow> int64 list \<Rightarrow> 'b world
    \<Rightarrow> (Response option \<times> error option) outcome \<times> 'b world" where
  "getLeafByIndex t indexes w =
     (let ctx = WithTimeout Background (20 * Second);
          rqst = \<lparr>byIndexRq_LogId = logID t, byIndexRq_LeafIndex = indexes\<rparr>;
          ((resp, err), b1) = GetLeavesByIndex (client t) ctx rqst (backend w);
          w1 = \<lparr>backend = b1, trace = trace w @ [Call_GetLeavesByIndex ctx rqst]\<rparr>
      in (Return
            (Some (empty_Response\<lparr>status := status_Code err, getLeafByIndexResult := resp\<rparr>),
             None),
          w1))"

text \<open>The two loops of \<open>getProofByHash\<close> (lines 147-155): the inner one logs every hash of
  a proof, the outer one verifies proof after proof and stops at the first error.\<close>

fun log_hashes :: "nat \<Rightarrow> nat \<Rightarrow> bytes list \<Rightarrow> event list" where
  "log_hashes i j [] = []"
| "log_hashes i j (h # hs) = Logger_Infof i j h # log_hashes i (Suc j) hs"

fun verify_proofs ::
  "deps \<Rightarrow> LogRootV1 \<Rightarrow> bytes \<Rightarrow> nat \<Rightarrow> Proof list \<Rightarrow> error option \<times> event list" where
  "verify_proofs d rt hashValue i [] = (None, [])"
| "verify_proofs d rt hashValue i (p # ps) =
     (let hashes = proof_Hashes p;
          evs = log_hashes i 0 hashes
                @ [Call_VerifyInclusionProof (proof_LeafIndex p) (int64_of_uint64 (TreeSize rt))
                     hashes (RootHash rt) hashValue]
      in case VerifyInclusionProof d (proof_LeafIndex p) (int64_of_uint64 (TreeSize rt))
                hashes (RootHash rt) hashValue of
           Some e \<Rightarrow> (Some e, evs)
         | None \<Rightarrow>
            (case verify_proofs d rt hashValue (Suc i) ps of
               (r, evs') \<Rightarrow> (r, evs @ evs')))"

text \<open>\<open>getProofByHash\<close> (lines 128-162).  The context with the timeout is made first, but
  \<open>t.root()\<close> does not take it.\<close>

definition getProofByHash ::
  "deps \<Rightarrow> 'b TrillianClient \<Rightarrow> bytes \<Rightarrow> 'b world
    \<Rightarrow> (Response option \<times> error option) outcome \<times> 'b world" where
  "getProofByHash d t hashValue w =
     (let ctx = WithTimeout Background (20 * Second)
      in case root d t w of
           (Panic, w1) \<Rightarrow> (Panic, w1)
         | (Exit, w1) \<Rightarrow> (Exit, w1)
         | (Return (rt, Some e), w1) \<Rightarrow> (Return (Some empty_Response, Some e), w1)
         | (Return (rt, None), w1) \<Rightarrow>
            (let rqst = \<lparr>inclRq_LogId = logID t, inclRq_LeafHash = hashValue,
                         inclRq_TreeSize = int64_of_uint64 (TreeSize rt)\<rparr>;
                 ((resp, err), b2) = GetInclusionProofByHash (client t) ctx rqst (backend w1);
                 w2 = \<lparr>backend = b2,
                       trace = trace w1 @ [Call_GetInclusionProofByHash ctx rqst]\<rparr>;
                 ok = (Return
                         (Some (empty_Response
                            \<lparr>status := status_Code err, getProofResult := resp\<rparr>),
                          None))
             in case resp of
                  None \<Rightarrow> (ok, w2)
                | Some r \<Rightarrow>
                   (case verify_proofs d rt hashValue 0 (inclRs_Proof r) of
                      (Some e, evs) \<Rightarrow>
                        (Return (Some empty_Response, Some e), w2\<lparr>trace := trace w2 @ evs\<rparr>)
                    | (None, evs) \<Rightarrow> (ok, w2\<lparr>trace := trace w2 @ evs\<rparr>))))"

text \<open>\<open>getLatest\<close> (lines 164-182).\<close>

definition getLatest ::
  "'b TrillianClient \<Rightarrow> int64 \<Rightarrow> 'b world
    \<Rightarrow> (Response option \<times> error option) outcome \<times> 'b world" where
  "getLatest t leafSizeInt w =
     (let ctx = WithTimeout Background (20 * Second);
          rqst = \<lparr>rootRq_LogId = logID t, rootRq_FirstTreeSize = leafSizeInt\<rparr>;
          ((resp, err), b1) = GetLatestSignedLogRoot (client t) ctx rqst (backend w);
          w1 = \<lparr>backend = b1, trace = trace w @ [Call_GetLatestSignedLogRoot ctx rqst]\<rparr>
      in case err of
           Some e \<Rightarrow> (Return (None, Some e), w1)
         | None \<Rightarrow>
            (Return
               (Some (empty_Response\<lparr>status := status_Code err, getLatestResult := resp\<rparr>),
                None),
             w1))"

text \<open>\<open>getConsistencyProof\<close> (lines 184-203).\<close>

definition getConsistencyProof ::
  "'b TrillianClient \<Rightarrow> int64 \<Rightarrow> int64 \<Rightarrow> 'b world
    \<Rightarrow> (Response option \<times> error option) outcome \<times> 'b world" where
  "getConsistencyProof t firstSize lastSize w =
     (let ctx = WithTimeout Background (20 * Second);
          rqst = \<lparr>consRq_LogId = logID t, consRq_FirstTreeSize = firstSize,
                  consRq_SecondTreeSize = lastSize\<rparr>;
          ((resp, err), b1) = GetConsistencyProof (client t) ctx rqst (backend w);
          w1 = \<lparr>backend = b1, trace = trace w @ [Call_GetConsistencyProof ctx rqst]\<rparr>
      in case err of
           Some e \<Rightarrow> (Return (None, Some e), w1)
         | None \<Rightarrow>
            (Return
               (Some (empty_Response
                  \<lparr>status := status_Code err, getConsistencyProofResult := resp\<rparr>),
                None),
             w1))"

text \<open>The loop of \<open>createAndInitTree\<close> (lines 212-216): the first tree of type \<open>LOG\<close>.\<close>

fun first_log_tree :: "Tree list \<Rightarrow> Tree option" where
  "first_log_tree [] = None"
| "first_log_tree (t # ts) =
     (if tree_TreeType t = TreeType_LOG then Some t else first_log_tree ts)"

text \<open>The request of lines 219-233.\<close>

definition new_tree_request :: CreateTreeRequest where
  "new_tree_request =
     \<lparr>createRq_Tree = Some
        \<lparr>tree_TreeId = 0,
         tree_TreeState = TreeState_ACTIVE,
         tree_TreeType = TreeType_LOG,
         tree_HashStrategy = HashStrategy_RFC6962_SHA256,
         tree_HashAlgorithm = DigitallySigned_SHA256,
         tree_SignatureAlgorithm = DigitallySigned_ECDSA,
         tree_MaxRootDuration = Some (DurationProto Hour)\<rparr>,
      createRq_KeySpec = Some (Specification_EcdsaParams ECDSA_DEFAULT_CURVE)\<rparr>"

text \<open>\<open>createAndInitTree\<close> (lines 205-242).  \<open>InitLog\<close> is \<open>client.InitLog\<close> of the Trillian
  library, a parameter; \<open>trees.Tree\<close> is a field access on the listing's response.\<close>

definition createAndInitTree ::
  "(Context \<Rightarrow> Tree option \<Rightarrow> 'b TrillianLogClient \<Rightarrow> 'b \<Rightarrow> error option \<times> 'b)
    \<Rightarrow> Context \<Rightarrow> 'b TrillianAdminClient \<Rightarrow> 'b TrillianLogClient \<Rightarrow> 'b world
    \<Rightarrow> (Tree option \<times> error option) outcome \<times> 'b world" where
  "createAndInitTree InitLog ctx adminClient logClient w =
     (let lrq = \<lparr>listRq_ShowDeleted = False\<rparr>;
          ((trees, err), b1) = ListTrees adminClient ctx lrq (backend w);
          w1 = \<lparr>backend = b1, trace = trace w @ [Call_ListTrees ctx lrq]\<rparr>
      in case err of
           Some e \<Rightarrow> (Return (None, Some e), w1)
         | None \<Rightarrow>
            (case trees of
               None \<Rightarrow> (Panic, w1)
             | Some ts \<Rightarrow>
                (case first_log_tree (listRs_Tree ts) of
                   Some t \<Rightarrow> (Return (Some t, None), w1)
                 | None \<Rightarrow>
                    (let ((t, err2), b2) = CreateTree adminClient ctx new_tree_request b1;
                         w2 = \<lparr>backend = b2,
                               trace = trace w1 @ [Call_CreateTree ctx new_tree_request]\<rparr>
                     in case err2 of
                          Some e \<Rightarrow> (Return (None, Some e), w2)
                        | None \<Rightarrow>
                           (let (err3, b3) = InitLog ctx t logClient b2;
                                w3 = \<lparr>backend = b3, trace = trace w2 @ [Call_InitLog ctx t]\<rparr>
                            in case err3 of
                                 Some e \<Rightarrow> (Return (None, Some e), w3)
                               | None \<Rightarrow> (Return (t, None), w3))))))"

subsection \<open>Vocabulary of the statements\<close>

text \<open>The verifier call that \<open>getProofByHash\<close> makes for one proof entry against a root, as
  an event and as a result.\<close>

definition verifier_event :: "LogRootV1 \<Rightarrow> bytes \<Rightarrow> Proof \<Rightarrow> event" where
  "verifier_event rt hashValue p =
     Call_VerifyInclusionProof (proof_LeafIndex p) (int64_of_uint64 (TreeSize rt))
       (proof_Hashes p) (RootHash rt) hashValue"

definition entry_result :: "deps \<Rightarrow> LogRootV1 \<Rightarrow> bytes \<Rightarrow> Proof \<Rightarrow> error option" where
  "entry_result d rt hashValue p =
     VerifyInclusionProof d (proof_LeafIndex p) (int64_of_uint64 (TreeSize rt))
       (proof_Hashes p) (RootHash rt) hashValue"

text \<open>The deadline that a remote call of the trace carried, if any.\<close>

definition call_deadline :: "event \<Rightarrow> Duration option" where
  "call_deadline e = (case call_context e of None \<Rightarrow> None | Some c \<Rightarrow> Deadline c)"

subsection \<open>Deadlines at the gRPC stub\<close>

text \<open>
  What the generated gRPC client stub answers for a call whose remote side needs \<open>latency\<close>
  to report \<open>reply\<close>: when the deadline of the context runs out first, the stub abandons
  the call and answers with no response and a status error of code \<open>DeadlineExceeded\<close>;
  otherwise it hands on what the remote side reported, which may itself be a status error
  of any code.  A context without a deadline never expires.
\<close>

definition expired :: "Context \<Rightarrow> Duration \<Rightarrow> bool" where
  "expired ctx latency = (case Deadline ctx of None \<Rightarrow> False | Some d \<Rightarrow> d < latency)"

definition grpc_call ::
  "Context \<Rightarrow> Duration \<Rightarrow> 'r option \<times> error option \<Rightarrow> 'r option \<times> error option" where
  "grpc_call ctx latency reply =
     (if expired ctx latency
      then (None, Some (StatusError codes_DeadlineExceeded ''context deadline exceeded''))
      else reply)"

subsection \<open>Stub backends for concrete runs\<close>

text \<open>A toy codec and verifier: the first byte of the blob is the tree size, the rest is
  the root hash; a proof is accepted when its hashes, concatenated, are the root hash.
  \<open>stub_log\<close> answers every call, reports every queued leaf as a duplicate and needs 21
  seconds for a lookup by index; \<open>down_log\<close> fails every call; \<open>stub_admin\<close>
  keeps the list of trees and gives a created tree the next identifier.\<close>

definition stub_deps :: deps where
  "stub_deps =
     \<lparr>UnmarshalBinary =
        (\<lambda>b. case b of
               [] \<Rightarrow> Inl (PlainError ''logRootBytes too short'')
             | x # xs \<Rightarrow> Inr \<lparr>TreeSize = ucast x, RootHash = xs, TimestampNanos = 0,
                              Revision = 0, Metadata = []\<rparr>),
      VerifyInclusionProof =
        (\<lambda>idx size hashes rh lh.
           if concat hashes = rh then None else Some (PlainError ''calculated root mismatch''))\<rparr>"

definition stub_log :: "'b TrillianLogClient" where
  "stub_log =
     \<lparr>GetLatestSignedLogRoot =
        (\<lambda>ctx rq b.
           ((Some \<lparr>rootRs_SignedLogRoot =
                     Some \<lparr>slr_LogRoot = [4, 10, 11], slr_LogRootSignature = []\<rparr>\<rparr>, None), b)),
      QueueLeaf =
        (\<lambda>ctx rq b.
           ((Some \<lparr>queueRs_QueuedLeaf =
                     Some \<lparr>qleaf_Leaf = queueRq_Leaf rq,
                           qleaf_Status = Some \<lparr>st_Code = 6, st_Message = []\<rparr>\<rparr>\<rparr>, None), b)),
      GetLeavesByHash = (\<lambda>ctx rq b. ((Some \<lparr>byHashRs_Leaves = []\<rparr>, None), b)),
      GetLeavesByIndex =
        (\<lambda>ctx rq b.
           (grpc_call ctx (21 * Second) (Some \<lparr>byIndexRs_Leaves = []\<rparr>, None), b)),
      GetInclusionProofByHash =
        (\<lambda>ctx rq b.
           ((Some \<lparr>inclRs_Proof = [\<lparr>proof_LeafIndex = 1, proof_Hashes = [[10], [11]]\<rparr>]\<rparr>,
             None), b)),
      GetConsistencyProof =
        (\<lambda>ctx rq b.
           ((Some \<lparr>consRs_Proof = Some \<lparr>proof_LeafIndex = 0, proof_Hashes = [[9]]\<rparr>\<rparr>, None),
            b))\<rparr>"

definition unavailable :: error where
  "unavailable = StatusError codes_Unavailable ''connection refused''"

definition down_log :: "'b TrillianLogClient" where
  "down_log =
     \<lparr>GetLatestSignedLogRoot = (\<lambda>ctx rq b. ((None, Some unavailable), b)),
      QueueLeaf = (\<lambda>ctx rq b. ((None, Some unavailable), b)),
      GetLeavesByHash = (\<lambda>ctx rq b. ((None, Some unavailable), b)),
      GetLeavesByIndex = (\<lambda>ctx rq b. ((None, Some unavailable), b)),
      GetInclusionProofByHash = (\<lambda>ctx rq b. ((None, Some unavailable), b)),
      GetConsistencyProof = (\<lambda>ctx rq b. ((None, Some unavailable), b))\<rparr>"

definition w0 :: "unit world" where
  "w0 = \<lparr>backend = (), trace = []\<rparr>"

definition stub_client :: "unit TrillianClient" where
  "stub_client = TrillianClientInstance stub_log 7"

definition down_client :: "unit TrillianClient" where
  "down_client = TrillianClientInstance down_log 7"

definition stub_admin :: "(Tree list) TrillianAdminClient" where
  "stub_admin =
     \<lparr>ListTrees = (\<lambda>ctx rq ts. ((Some \<lparr>listRs_Tree = ts\<rparr>, None), ts)),
      CreateTree =
        (\<lambda>ctx rq ts.
           case createRq_Tree rq of
             None \<Rightarrow> ((None, Some (StatusError codes_InvalidArgument ''a tree is required'')), ts)
           | Some tr \<Rightarrow>
               ((Some (tr\<lparr>tree_TreeId := of_nat (length ts) + 1\<rparr>), None),
                ts @ [tr\<lparr>tree_TreeId := of_nat (length ts) + 1\<rparr>]))\<rparr>"

definition stub_InitLog ::
  "Context \<Rightarrow> Tree option \<Rightarrow> 'b TrillianLogClient \<Rightarrow> 'b \<Rightarrow> error option \<times> 'b" where
  "stub_InitLog ctx t lc b = (None, b)"

text \<open>\<open>forged_log\<close> is \<open>stub_log\<close> with an inclusion proof that does not match the root;
  \<open>stub_root\<close> is what the toy codec decodes from the stub's blob; \<open>stub_tree\<close> is the tree
  that \<open>stub_admin\<close> creates first.\<close>

definition forged_log :: "'b TrillianLogClient" where
  "forged_log =
     stub_log\<lparr>GetInclusionProofByHash :=
        (\<lambda>ctx rq b.
           ((Some \<lparr>inclRs_Proof = [\<lparr>proof_LeafIndex = 1, proof_Hashes = [[10], [12]]\<rparr>]\<rparr>,
             None), b))\<rparr>"

definition forged_client :: "unit TrillianClient" where
  "forged_client = TrillianClientInstance forged_log 7"

text \<open>\<open>accepting_log\<close> is \<open>stub_log\<close> with a remote side that accepts every queued leaf as
  new (status code 0); \<open>timed_log\<close> is \<open>stub_log\<close> with a lookup by index that needs \<open>latency\<close>
  to report \<open>reply\<close>.\<close>

definition accepting_log :: "'b TrillianLogClient" where
  "accepting_log =
     stub_log\<lparr>QueueLeaf :=
        (\<lambda>ctx rq b.
           ((Some \<lparr>queueRs_QueuedLeaf =
                     Some \<lparr>qleaf_Leaf = queueRq_Leaf rq,
                           qleaf_Status = Some \<lparr>st_Code = 0, st_Message = []\<rparr>\<rparr>\<rparr>, None), b))\<rparr>"

definition accepting_client :: "unit TrillianClient" where
  "accepting_client = TrillianClientInstance accepting_log 7"

definition timed_log ::
  "Duration \<Rightarrow> GetLeavesByIndexResponse option \<times> error option \<Rightarrow> 'b TrillianLogClient" where
  "timed_log latency reply =
     stub_log\<lparr>GetLeavesByIndex := (\<lambda>ctx rq b. (grpc_call ctx latency reply, b))\<rparr>"

definition timed_client ::
  "Duration \<Rightarrow> GetLeavesByIndexResponse option \<times> error option \<Rightarrow> unit TrillianClient" where
  "timed_client latency reply = TrillianClientInstance (timed_log latency reply) 7"

definition stub_root :: LogRootV1 where
  "stub_root =
     \<lparr>TreeSize = 4, RootHash = [10, 11], TimestampNanos = 0, Revision = 0, Metadata = []\<rparr>"

definition stub_tree :: Tree where
  "stub_tree =
     \<lparr>tree_TreeId = 1,
      tree_TreeState = TreeState_ACTIVE,
      tree_TreeType = TreeType_LOG,
      tree_HashStrategy = HashStrategy_RFC6962_SHA256,
      tree_HashAlgorithm = DigitallySigned_SHA256,
      tree_SignatureAlgorithm = DigitallySigned_ECDSA,
      tree_MaxRootDuration = Some \<lparr>dur_Seconds = 3600, dur_Nanos = 0\<rparr>\<rparr>"

section \<open>Properties\<close>

subsection \<open>Helper lemmas\<close>

lemmas codes_defs =
  codes_OK_def codes_Canceled_def codes_Unknown_def codes_InvalidArgument_def
  codes_DeadlineExceeded_def codes_NotFound_def codes_AlreadyExists_def codes_Unavailable_def

text \<open>The conversion \<open>int64(x)\<close> keeps the bits, and the value too below \<open>2^63\<close>.\<close>

lemma int64_of_uint64_bits: "int64_of_uint64 x = x"
  by (simp add: int64_of_uint64_def)

lemma int64_of_uint64_value:
  assumes "uint x < 2 ^ 63"
  shows "sint (int64_of_uint64 x) = uint x"
proof -
  have "- (2 ^ 63 :: int) \<le> 0" by simp
  also have "0 \<le> uint x" by simp
  finally have "- (2 ^ 63) \<le> uint x" .
  then have "signed_take_bit 63 (uint x) = uint x"
    using assms by (simp add: signed_take_bit_int_eq_self_iff)
  then show ?thesis by (simp add: int64_of_uint64_def sint_uint)
qed

lemma root_trace:
  "trace (snd (root d t w)) =
     trace w @ [Call_GetLatestSignedLogRoot Background
                  \<lparr>rootRq_LogId = logID t, rootRq_FirstTreeSize = 0\<rparr>]"
  by (simp add: root_def Let_def split: prod.splits option.splits sum.splits)

lemma root_never_exits: "fst (root d t w) \<noteq> Exit"
  by (simp add: root_def Let_def split: prod.splits option.splits sum.splits)

lemma log_hashes_not_verifier: "filter is_verifier_call (log_hashes i j hs) = []"
  by (induction hs arbitrary: j) simp_all

lemma log_hashes_not_remote: "e \<in> set (log_hashes i j hs) \<Longrightarrow> \<not> is_remote_call e"
  by (induction hs arbitrary: j) (auto simp: is_remote_call_def)

lemma log_hashes_Infof: "e \<in> set (log_hashes i j hs) \<Longrightarrow> \<exists>a b h. e = Logger_Infof a b h"
  by (induction hs arbitrary: j) auto

lemma fst_verify_proofs_Cons:
  "fst (verify_proofs d rt hv i (p # ps)) =
     (case entry_result d rt hv p of
        Some e \<Rightarrow> Some e
      | None \<Rightarrow> fst (verify_proofs d rt hv (Suc i) ps))"
  by (simp add: entry_result_def Let_def case_prod_beta split: option.splits)

lemma snd_verify_proofs_Cons:
  "snd (verify_proofs d rt hv i (p # ps)) =
     log_hashes i 0 (proof_Hashes p) @ [verifier_event rt hv p]
     @ (case entry_result d rt hv p of
          Some e \<Rightarrow> []
        | None \<Rightarrow> snd (verify_proofs d rt hv (Suc i) ps))"
  by (simp add: entry_result_def verifier_event_def Let_def case_prod_beta split: option.splits)

lemma verify_proofs_None_iff:
  "fst (verify_proofs d rt hv i ps) = None \<longleftrightarrow> (\<forall>p\<in>set ps. entry_result d rt hv p = None)"
  by (induction ps arbitrary: i)
     (auto simp: fst_verify_proofs_Cons simp del: verify_proofs.simps(2) split: option.splits)

lemma verify_proofs_Some:
  "fst (verify_proofs d rt hv i ps) = Some e \<Longrightarrow> \<exists>p\<in>set ps. entry_result d rt hv p = Some e"
  by (induction ps arbitrary: i)
     (auto simp: fst_verify_proofs_Cons simp del: verify_proofs.simps(2) split: option.splits)

lemma verify_proofs_all_events:
  "fst (verify_proofs d rt hv i ps) = None \<Longrightarrow>
   filter is_verifier_call (snd (verify_proofs d rt hv i ps)) = map (verifier_event rt hv) ps"
  by (induction ps arbitrary: i)
     (auto simp: fst_verify_proofs_Cons snd_verify_proofs_Cons log_hashes_not_verifier
                 verifier_event_def
           simp del: verify_proofs.simps(2) split: option.splits)

lemma verify_proofs_events:
  "e \<in> set (snd (verify_proofs d rt hv i ps)) \<Longrightarrow>
   (\<exists>a b h. e = Logger_Infof a b h) \<or> (\<exists>p\<in>set ps. e = verifier_event rt hv p)"
  by (induction ps arbitrary: i)
     (auto simp: snd_verify_proofs_Cons simp del: verify_proofs.simps(2)
           dest: log_hashes_Infof split: option.splits)

lemma getProofByHash_unfold:
  assumes "root d t w = (Return (rt, None), w1)"
      and "GetInclusionProofByHash (client t) (WithTimeout Background (20 * Second))
             \<lparr>inclRq_LogId = logID t, inclRq_LeafHash = hv,
              inclRq_TreeSize = int64_of_uint64 (TreeSize rt)\<rparr> (backend w1) = ((resp, err), b2)"
  shows "getProofByHash d t hv w =
     (case resp of
        None \<Rightarrow>
          (Return (Some (empty_Response\<lparr>status := status_Code err, getProofResult := None\<rparr>), None),
           \<lparr>backend = b2,
            trace = trace w1 @ [Call_GetInclusionProofByHash (WithTimeout Background (20 * Second))
               \<lparr>inclRq_LogId = logID t, inclRq_LeafHash = hv,
                inclRq_TreeSize = int64_of_uint64 (TreeSize rt)\<rparr>]\<rparr>)
      | Some r \<Rightarrow>
          (case fst (verify_proofs d rt hv 0 (inclRs_Proof r)) of
             Some e \<Rightarrow> Return (Some empty_Response, Some e)
           | None \<Rightarrow> Return (Some (empty_Response\<lparr>status := status_Code err, getProofResult := Some r\<rparr>), None),
           \<lparr>backend = b2,
            trace = trace w1 @ [Call_GetInclusionProofByHash (WithTimeout Background (20 * Second))
               \<lparr>inclRq_LogId = logID t, inclRq_LeafHash = hv,
                inclRq_TreeSize = int64_of_uint64 (TreeSize rt)\<rparr>]
               @ snd (verify_proofs d rt hv 0 (inclRs_Proof r))\<rparr>))"
  using assms
  by (simp add: getProofByHash_def Let_def split: option.splits prod.splits)

lemma getProofByHash_root_panic:
  "fst (root d t w) = Panic \<Longrightarrow> getProofByHash d t hv w = (Panic, snd (root d t w))"
  by (cases "root d t w") (simp add: getProofByHash_def)

lemma getProofByHash_root_error:
  "fst (root d t w) = Return (rt, Some e) \<Longrightarrow>
   getProofByHash d t hv w = (Return (Some empty_Response, Some e), snd (root d t w))"
  by (cases "root d t w") (simp add: getProofByHash_def)

lemma root_outcome_cases:
  "fst (root d t w) = Panic \<or> (\<exists>rt e. fst (root d t w) = Return (rt, Some e))
   \<or> (\<exists>rt. fst (root d t w) = Return (rt, None))"
proof (cases "fst (root d t w)")
  case (Return x)
  then show ?thesis by (cases x; cases "snd x") auto
next
  case Panic
  then show ?thesis by simp
next
  case Exit
  then show ?thesis using root_never_exits [of d t w] by simp
qed

lemma getProofResult_empty: "getProofResult empty_Response = None"
  by (simp add: empty_Response_def)

lemma first_log_tree_None_iff:
  "first_log_tree ts = None \<longleftrightarrow> (\<forall>y\<in>set ts. tree_TreeType y \<noteq> TreeType_LOG)"
  by (induction ts) auto

lemma first_log_tree_append:
  "first_log_tree (xs @ ys) =
     (case first_log_tree xs of Some t \<Rightarrow> Some t | None \<Rightarrow> first_log_tree ys)"
  by (induction xs) auto

lemma first_log_tree_split:
  assumes "ts = pre @ x # post" "tree_TreeType x = TreeType_LOG"
      and "\<forall>y\<in>set pre. tree_TreeType y \<noteq> TreeType_LOG"
  shows "first_log_tree ts = Some x"
  using assms first_log_tree_None_iff [of pre] by (simp add: first_log_tree_append)

lemma createAndInitTree_found:
  assumes "ListTrees adm ctx \<lparr>listRq_ShowDeleted = False\<rparr> (backend w) = ((Some ts, None), b1)"
      and "first_log_tree (listRs_Tree ts) = Some t"
  shows "createAndInitTree InitLog ctx adm lc w =
           (Return (Some t, None),
            \<lparr>backend = b1,
             trace = trace w @ [Call_ListTrees ctx \<lparr>listRq_ShowDeleted = False\<rparr>]\<rparr>)"
  using assms by (simp add: createAndInitTree_def Let_def)

subsection \<open>Runs of the stub backends\<close>

lemma stub_root_run:
  "root stub_deps stub_client w0 =
     (Return (stub_root, None),
      \<lparr>backend = (),
       trace = [Call_GetLatestSignedLogRoot Background
                  \<lparr>rootRq_LogId = 7, rootRq_FirstTreeSize = 0\<rparr>]\<rparr>)"
  by (simp add: root_def stub_deps_def stub_client_def stub_log_def stub_root_def
        TrillianClientInstance_def w0_def)

lemma forged_root_run:
  "root stub_deps forged_client w0 =
     (Return (stub_root, None),
      \<lparr>backend = (),
       trace = [Call_GetLatestSignedLogRoot Background
                  \<lparr>rootRq_LogId = 7, rootRq_FirstTreeSize = 0\<rparr>]\<rparr>)"
  by (simp add: root_def stub_deps_def forged_client_def forged_log_def stub_log_def stub_root_def
        TrillianClientInstance_def w0_def)

lemma stub_proof_run:
  "getProofByHash stub_deps stub_client [5] w0 =
     (Return (Some (empty_Response
        \<lparr>status := codes_OK,
         getProofResult :=
           Some \<lparr>inclRs_Proof = [\<lparr>proof_LeafIndex = 1, proof_Hashes = [[10], [11]]\<rparr>]\<rparr>\<rparr>), None),
      \<lparr>backend = (),
       trace =
         [Call_GetLatestSignedLogRoot Background \<lparr>rootRq_LogId = 7, rootRq_FirstTreeSize = 0\<rparr>,
          Call_GetInclusionProofByHash (WithTimeout Background (20 * Second))
            \<lparr>inclRq_LogId = 7, inclRq_LeafHash = [5], inclRq_TreeSize = 4\<rparr>,
          Logger_Infof 0 0 [10], Logger_Infof 0 1 [11],
          Call_VerifyInclusionProof 1 4 [[10], [11]] [10, 11] [5]]\<rparr>)"
proof -
  have rpc:
    "GetInclusionProofByHash (client stub_client) (WithTimeout Background (20 * Second))
       \<lparr>inclRq_LogId = logID stub_client, inclRq_LeafHash = [5],
        inclRq_TreeSize = int64_of_uint64 (TreeSize stub_root)\<rparr>
       (backend \<lparr>backend = (), trace = [Call_GetLatestSignedLogRoot Background
                  \<lparr>rootRq_LogId = 7, rootRq_FirstTreeSize = 0\<rparr>]\<rparr>)
     = ((Some \<lparr>inclRs_Proof = [\<lparr>proof_LeafIndex = 1, proof_Hashes = [[10], [11]]\<rparr>]\<rparr>, None), ())"
    by (simp add: stub_client_def stub_log_def TrillianClientInstance_def)
  show ?thesis
    unfolding getProofByHash_unfold [OF stub_root_run rpc]
    by (simp add: stub_client_def stub_deps_def stub_root_def TrillianClientInstance_def
          int64_of_uint64_def)
qed

lemma stub_create_run:
  "createAndInitTree stub_InitLog Background stub_admin stub_log \<lparr>backend = [], trace = []\<rparr> =
     (Return (Some stub_tree, None),
      \<lparr>backend = [stub_tree],
       trace = [Call_ListTrees Background \<lparr>listRq_ShowDeleted = False\<rparr>,
                Call_CreateTree Background new_tree_request,
                Call_InitLog Background (Some stub_tree)]\<rparr>)"
  by (simp add: createAndInitTree_def stub_admin_def stub_InitLog_def stub_tree_def
        new_tree_request_def DurationProto_def Hour_def Second_def)

subsection \<open>The claims\<close>

text \<open>
  Claim C1.  For every leaf hash, \<open>getProofByHash\<close> (the spec's \<open>getInclusionProof\<close>) hands
  the remote side's proof to the caller only after the verifier has accepted every proof
  entry against the fetched root: a returned response that carries a proof comes with a nil
  error, with one verifier call per entry in the trace, and every entry passes.  When the
  remote side answers with proofs, the result is the proof if all entries pass, and
  otherwise the empty response together with the verifier's error for a failing entry.
\<close>

theorem getProofByHash_returns_only_verified:
  "(\<forall>R eo resp. fst (getProofByHash d t hv w) = Return (Some R, eo) \<and> getProofResult R = Some resp
      \<longrightarrow> eo = None
          \<and> (\<exists>rt. fst (root d t w) = Return (rt, None)
                \<and> (\<forall>p\<in>set (inclRs_Proof resp). entry_result d rt hv p = None)
                \<and> filter is_verifier_call (trace (snd (getProofByHash d t hv w)))
                    = filter is_verifier_call (trace w)
                      @ map (verifier_event rt hv) (inclRs_Proof resp)))
   \<and> (\<forall>rt w1 resp err b2.
        root d t w = (Return (rt, None), w1)
        \<and> GetInclusionProofByHash (client t) (WithTimeout Background (20 * Second))
             \<lparr>inclRq_LogId = logID t, inclRq_LeafHash = hv,
              inclRq_TreeSize = int64_of_uint64 (TreeSize rt)\<rparr> (backend w1)
            = ((Some resp, err), b2)
      \<longrightarrow> (if \<forall>p\<in>set (inclRs_Proof resp). entry_result d rt hv p = None
           then fst (getProofByHash d t hv w)
                 = Return (Some (empty_Response\<lparr>status := status_Code err,
                                                getProofResult := Some resp\<rparr>), None)
           else \<exists>e. fst (getProofByHash d t hv w) = Return (Some empty_Response, Some e)
                  \<and> (\<exists>p\<in>set (inclRs_Proof resp). entry_result d rt hv p = Some e)))"
proof (intro conjI allI impI)
  fix rt w1 resp err b2
  assume a: "root d t w = (Return (rt, None), w1)
        \<and> GetInclusionProofByHash (client t) (WithTimeout Background (20 * Second))
             \<lparr>inclRq_LogId = logID t, inclRq_LeafHash = hv,
              inclRq_TreeSize = int64_of_uint64 (TreeSize rt)\<rparr> (backend w1)
            = ((Some resp, err), b2)"
  note u = getProofByHash_unfold [OF conjunct1 [OF a] conjunct2 [OF a]]
  show "if \<forall>p\<in>set (inclRs_Proof resp). entry_result d rt hv p = None
           then fst (getProofByHash d t hv w)
                 = Return (Some (empty_Response\<lparr>status := status_Code err,
                                                getProofResult := Some resp\<rparr>), None)
           else \<exists>e. fst (getProofByHash d t hv w) = Return (Some empty_Response, Some e)
                  \<and> (\<exists>p\<in>set (inclRs_Proof resp). entry_result d rt hv p = Some e)"
  proof (cases "fst (verify_proofs d rt hv 0 (inclRs_Proof resp))")
    case None
    then show ?thesis using u verify_proofs_None_iff [of d rt hv 0 "inclRs_Proof resp"] by simp
  next
    case (Some e)
    then have "\<not> (\<forall>p\<in>set (inclRs_Proof resp). entry_result d rt hv p = None)"
      using verify_proofs_None_iff [of d rt hv 0 "inclRs_Proof resp"] by simp
    then show ?thesis using u Some verify_proofs_Some [OF Some] by simp
  qed
next
  fix R eo resp
  assume a: "fst (getProofByHash d t hv w) = Return (Some R, eo) \<and> getProofResult R = Some resp"
  then have res: "fst (getProofByHash d t hv w) = Return (Some R, eo)"
    and pr: "getProofResult R = Some resp" by simp_all
  from root_outcome_cases [of d t w]
  obtain rt where rt: "fst (root d t w) = Return (rt, None)"
    using res pr getProofByHash_root_panic [of d t w hv] getProofByHash_root_error [of d t w _ _ hv]
    by (auto simp: getProofResult_empty)
  obtain w1 where w1: "root d t w = (Return (rt, None), w1)"
    using rt by (cases "root d t w") simp
  obtain resp' err b2 where rpc:
    "GetInclusionProofByHash (client t) (WithTimeout Background (20 * Second))
       \<lparr>inclRq_LogId = logID t, inclRq_LeafHash = hv,
        inclRq_TreeSize = int64_of_uint64 (TreeSize rt)\<rparr> (backend w1) = ((resp', err), b2)"
    by (metis surj_pair)
  note u = getProofByHash_unfold [OF w1 rpc]
  have r': "resp' = Some resp"
    using u res pr by (auto simp: getProofResult_empty split: option.splits)
  have ok: "fst (verify_proofs d rt hv 0 (inclRs_Proof resp)) = None"
    using u res pr r' by (auto simp: getProofResult_empty split: option.splits)
  have tr: "trace w1 = trace w @ [Call_GetLatestSignedLogRoot Background
                  \<lparr>rootRq_LogId = logID t, rootRq_FirstTreeSize = 0\<rparr>]"
    using root_trace [of d t w] w1 by simp
  show "eo = None" using u res r' ok by simp
  have "\<forall>p\<in>set (inclRs_Proof resp). entry_result d rt hv p = None"
    using ok verify_proofs_None_iff by blast
  moreover have "filter is_verifier_call (trace (snd (getProofByHash d t hv w)))
                    = filter is_verifier_call (trace w)
                      @ map (verifier_event rt hv) (inclRs_Proof resp)"
    using u r' tr verify_proofs_all_events [OF ok] by simp
  ultimately show "\<exists>rt. fst (root d t w) = Return (rt, None)
                \<and> (\<forall>p\<in>set (inclRs_Proof resp). entry_result d rt hv p = None)
                \<and> filter is_verifier_call (trace (snd (getProofByHash d t hv w)))
                    = filter is_verifier_call (trace w)
                      @ map (verifier_event rt hv) (inclRs_Proof resp)"
    using rt by blast
qed

theorem getProofByHash_returns_only_verified_witness:
  "fst (getProofByHash stub_deps stub_client [5] w0) =
     Return (Some (empty_Response
        \<lparr>status := codes_OK,
         getProofResult :=
           Some \<lparr>inclRs_Proof = [\<lparr>proof_LeafIndex = 1, proof_Hashes = [[10], [11]]\<rparr>]\<rparr>\<rparr>), None)
   \<and> fst (getProofByHash stub_deps forged_client [5] w0) =
       Return (Some empty_Response, Some (PlainError ''calculated root mismatch''))"
proof -
  have rpc1:
    "GetInclusionProofByHash (client stub_client) (WithTimeout Background (20 * Second))
       \<lparr>inclRq_LogId = logID stub_client, inclRq_LeafHash = [5],
        inclRq_TreeSize = int64_of_uint64 (TreeSize stub_root)\<rparr>
       (backend \<lparr>backend = (), trace = [Call_GetLatestSignedLogRoot Background
                  \<lparr>rootRq_LogId = 7, rootRq_FirstTreeSize = 0\<rparr>]\<rparr>)
     = ((Some \<lparr>inclRs_Proof = [\<lparr>proof_LeafIndex = 1, proof_Hashes = [[10], [11]]\<rparr>]\<rparr>, None), ())"
    by (simp add: stub_client_def stub_log_def TrillianClientInstance_def)
  have rpc2:
    "GetInclusionProofByHash (client forged_client) (WithTimeout Background (20 * Second))
       \<lparr>inclRq_LogId = logID forged_client, inclRq_LeafHash = [5],
        inclRq_TreeSize = int64_of_uint64 (TreeSize stub_root)\<rparr>
       (backend \<lparr>backend = (), trace = [Call_GetLatestSignedLogRoot Background
                  \<lparr>rootRq_LogId = 7, rootRq_FirstTreeSize = 0\<rparr>]\<rparr>)
     = ((Some \<lparr>inclRs_Proof = [\<lparr>proof_LeafIndex = 1, proof_Hashes = [[10], [12]]\<rparr>]\<rparr>, None), ())"
    by (simp add: forged_client_def forged_log_def stub_log_def TrillianClientInstance_def)
  have a: "fst (getProofByHash stub_deps stub_client [5] w0) =
     Return (Some (empty_Response
        \<lparr>status := codes_OK,
         getProofResult :=
           Some \<lparr>inclRs_Proof = [\<lparr>proof_LeafIndex = 1, proof_Hashes = [[10], [11]]\<rparr>]\<rparr>\<rparr>), None)"
    using getProofByHash_returns_only_verified [of stub_deps stub_client "[5]" w0,
        THEN conjunct2, rule_format, OF conjI [OF stub_root_run rpc1]]
    by (simp add: entry_result_def stub_deps_def stub_root_def)
  have b: "fst (getProofByHash stub_deps forged_client [5] w0) =
       Return (Some empty_Response, Some (PlainError ''calculated root mismatch''))"
    using getProofByHash_returns_only_verified [of stub_deps forged_client "[5]" w0,
        THEN conjunct2, rule_format, OF conjI [OF forged_root_run rpc2]]
    by (auto simp add: entry_result_def stub_deps_def stub_root_def)
  from a b show ?thesis by simp
qed

text \<open>
  Claim C2.  In \<open>getProofByHash\<close> the root is fetched first and once; when that succeeds
  with root \<open>rt\<close>, the next event is the inclusion-proof request at \<open>int64(rt.TreeSize)\<close>, and
  everything after it is a log line or a verifier call at that same tree size and root
  hash, for the requested leaf hash.  When the root fetch fails or panics, the root fetch
  is the only event: no proof is requested and none is verified.
\<close>

theorem getProofByHash_same_root:
  "case fst (root d t w) of
     Return (rt, None) \<Rightarrow>
       (\<exists>evs. trace (snd (getProofByHash d t hv w)) =
                trace w
                @ [Call_GetLatestSignedLogRoot Background
                     \<lparr>rootRq_LogId = logID t, rootRq_FirstTreeSize = 0\<rparr>,
                   Call_GetInclusionProofByHash (WithTimeout Background (20 * Second))
                     \<lparr>inclRq_LogId = logID t, inclRq_LeafHash = hv,
                      inclRq_TreeSize = int64_of_uint64 (TreeSize rt)\<rparr>]
                @ evs
            \<and> (\<forall>e\<in>set evs.
                  (\<exists>i j h. e = Logger_Infof i j h)
                  \<or> (\<exists>idx hs. e = Call_VerifyInclusionProof idx
                        (int64_of_uint64 (TreeSize rt)) hs (RootHash rt) hv)))
   | _ \<Rightarrow>
       trace (snd (getProofByHash d t hv w)) =
         trace w @ [Call_GetLatestSignedLogRoot Background
                      \<lparr>rootRq_LogId = logID t, rootRq_FirstTreeSize = 0\<rparr>]"
proof -
  consider (panic) "fst (root d t w) = Panic"
    | (err) rt e where "fst (root d t w) = Return (rt, Some e)"
    | (ok) rt where "fst (root d t w) = Return (rt, None)"
    using root_outcome_cases [of d t w] by blast
  then show ?thesis
  proof cases
    case panic
    then show ?thesis
      using getProofByHash_root_panic [OF panic, of hv] root_trace [of d t w] by simp
  next
    case err
    then show ?thesis
      using getProofByHash_root_error [OF err, of hv] root_trace [of d t w] by simp
  next
    case ok
    obtain w1 where w1: "root d t w = (Return (rt, None), w1)"
      using ok by (cases "root d t w") simp
    obtain resp err b2 where rpc:
      "GetInclusionProofByHash (client t) (WithTimeout Background (20 * Second))
         \<lparr>inclRq_LogId = logID t, inclRq_LeafHash = hv,
          inclRq_TreeSize = int64_of_uint64 (TreeSize rt)\<rparr> (backend w1) = ((resp, err), b2)"
      by (metis surj_pair)
    note u = getProofByHash_unfold [OF w1 rpc]
    have tr: "trace w1 = trace w @ [Call_GetLatestSignedLogRoot Background
                  \<lparr>rootRq_LogId = logID t, rootRq_FirstTreeSize = 0\<rparr>]"
      using root_trace [of d t w] w1 by simp
    define evs where
      "evs = (case resp of None \<Rightarrow> [] | Some r \<Rightarrow> snd (verify_proofs d rt hv 0 (inclRs_Proof r)))"
    have t: "trace (snd (getProofByHash d t hv w)) =
                trace w
                @ [Call_GetLatestSignedLogRoot Background
                     \<lparr>rootRq_LogId = logID t, rootRq_FirstTreeSize = 0\<rparr>,
                   Call_GetInclusionProofByHash (WithTimeout Background (20 * Second))
                     \<lparr>inclRq_LogId = logID t, inclRq_LeafHash = hv,
                      inclRq_TreeSize = int64_of_uint64 (TreeSize rt)\<rparr>]
                @ evs"
      using u tr by (simp add: evs_def split: option.splits)
    have e: "\<forall>e\<in>set evs.
                  (\<exists>i j h. e = Logger_Infof i j h)
                  \<or> (\<exists>idx hs. e = Call_VerifyInclusionProof idx
                        (int64_of_uint64 (TreeSize rt)) hs (RootHash rt) hv)"
    proof
      fix e
      assume "e \<in> set evs"
      then obtain r :: GetInclusionProofByHashResponse
        where "e \<in> set (snd (verify_proofs d rt hv 0 (inclRs_Proof r)))"
        by (auto simp: evs_def split: option.splits)
      from verify_proofs_events [OF this]
      show "(\<exists>i j h. e = Logger_Infof i j h)
                  \<or> (\<exists>idx hs. e = Call_VerifyInclusionProof idx
                        (int64_of_uint64 (TreeSize rt)) hs (RootHash rt) hv)"
        by (auto simp: verifier_event_def)
    qed
    from t e show ?thesis using ok by auto
  qed
qed

theorem getProofByHash_same_root_witness:
  "trace (snd (getProofByHash stub_deps stub_client [5] w0)) =
     [Call_GetLatestSignedLogRoot Background \<lparr>rootRq_LogId = 7, rootRq_FirstTreeSize = 0\<rparr>,
      Call_GetInclusionProofByHash (WithTimeout Background (20 * Second))
        \<lparr>inclRq_LogId = 7, inclRq_LeafHash = [5], inclRq_TreeSize = 4\<rparr>,
      Logger_Infof 0 0 [10], Logger_Infof 0 1 [11],
      Call_VerifyInclusionProof 1 4 [[10], [11]] [10, 11] [5]]"
  using getProofByHash_same_root [where d = stub_deps and t = stub_client and w = w0
      and hv = "[5]"]
  by (simp add: stub_proof_run)

text \<open>
  Claim C3 (fails on the code).  With a remote side that refuses every call,
  \<open>getLeafByHash\<close> writes the error with \<open>Logger.Fatal\<close> and ends the process, and
  \<open>addLeaf\<close> panics; neither returns the failure.  The sibling operations \<open>getLatest\<close> and
  \<open>getConsistencyProof\<close> do return it.
\<close>

theorem getLeafByHash_failure_exits:
  "getLeafByHash down_client [[5]] w0 =
     (Exit,
      \<lparr>backend = (),
       trace = [Call_GetLeavesByHash Background
                  \<lparr>byHashRq_LogId = 7, byHashRq_LeafHash = [[5]]\<rparr>,
                Logger_Fatal unavailable]\<rparr>)
   \<and> fst (addLeaf down_client [1, 2] w0) = Panic
   \<and> fst (getLatest down_client 0 w0) = Return (None, Some unavailable)
   \<and> fst (getConsistencyProof down_client 2 4 w0) = Return (None, Some unavailable)"
  by (simp add: getLeafByHash_def addLeaf_def getLatest_def getConsistencyProof_def
        down_client_def down_log_def TrillianClientInstance_def w0_def)

text \<open>
  Claim C4.  Whenever the remote side answers \<open>QueueLeaf\<close> with a response, \<open>addLeaf\<close>
  returns normally with a nil error, the remote answer in \<open>getAddResult\<close>, and in \<open>status\<close>
  the status code that the remote side reported for the queued leaf.  So the \<open>status\<close> field
  is \<open>AlreadyExists\<close> exactly when the remote side reported code 6 (\<open>ALREADY_EXISTS\<close>), a
  code different from \<open>OK\<close>; in particular a duplicate leaf is returned as such, with a nil
  error.
\<close>

theorem addLeaf_duplicate_in_status:
  assumes "QueueLeaf (client t) Background
             \<lparr>queueRq_LogId = logID t,
              queueRq_Leaf = Some \<lparr>leaf_MerkleLeafHash = [], leaf_LeafValue = v,
                                   leaf_LeafIndex = 0\<rparr>\<rparr> (backend w) = ((Some resp, err), b1)"
  shows "addLeaf t v w =
           (Return (Some (empty_Response
              \<lparr>status := codes_Code (GetCode (GetStatus (queueRs_QueuedLeaf resp))),
               getAddResult := Some resp\<rparr>), None),
            \<lparr>backend = b1,
             trace = trace w @
               Call_QueueLeaf Background
                  \<lparr>queueRq_LogId = logID t,
                   queueRq_Leaf = Some \<lparr>leaf_MerkleLeafHash = [], leaf_LeafValue = v,
                                        leaf_LeafIndex = 0\<rparr>\<rparr>
               # (case err of None \<Rightarrow> [] | Some e \<Rightarrow> [Println e])\<rparr>)
       \<and> (\<exists>R. fst (addLeaf t v w) = Return (Some R, None)
              \<and> getAddResult R = Some resp
              \<and> (status R = codes_AlreadyExists
                   \<longleftrightarrow> GetCode (GetStatus (queueRs_QueuedLeaf resp)) = 6))
       \<and> (\<forall>ql st. queueRs_QueuedLeaf resp = Some ql \<and> qleaf_Status ql = Some st
                  \<and> st_Code st = 6
              \<longrightarrow> fst (addLeaf t v w) =
                    Return (Some (empty_Response\<lparr>status := codes_AlreadyExists,
                                                 getAddResult := Some resp\<rparr>), None))
       \<and> codes_AlreadyExists \<noteq> codes_OK"
  using assms
  by (auto simp add: addLeaf_def Let_def codes_Code_def codes_defs split: option.splits)

theorem addLeaf_duplicate_in_status_witness:
  "fst (addLeaf stub_client [1, 2] w0) =
     Return (Some (empty_Response
        \<lparr>status := codes_AlreadyExists,
         getAddResult := Some \<lparr>queueRs_QueuedLeaf =
            Some \<lparr>qleaf_Leaf = Some \<lparr>leaf_MerkleLeafHash = [], leaf_LeafValue = [1, 2],
                                      leaf_LeafIndex = 0\<rparr>,
                  qleaf_Status = Some \<lparr>st_Code = 6, st_Message = []\<rparr>\<rparr>\<rparr>\<rparr>), None)
   \<and> fst (addLeaf accepting_client [1, 2] w0) =
     Return (Some (empty_Response
        \<lparr>status := codes_OK,
         getAddResult := Some \<lparr>queueRs_QueuedLeaf =
            Some \<lparr>qleaf_Leaf = Some \<lparr>leaf_MerkleLeafHash = [], leaf_LeafValue = [1, 2],
                                      leaf_LeafIndex = 0\<rparr>,
                  qleaf_Status = Some \<lparr>st_Code = 0, st_Message = []\<rparr>\<rparr>\<rparr>\<rparr>), None)"
proof -
  have dup:
    "QueueLeaf (client stub_client) Background
       \<lparr>queueRq_LogId = logID stub_client,
        queueRq_Leaf = Some \<lparr>leaf_MerkleLeafHash = [], leaf_LeafValue = [1, 2],
                             leaf_LeafIndex = 0\<rparr>\<rparr> (backend w0)
     = ((Some \<lparr>queueRs_QueuedLeaf =
            Some \<lparr>qleaf_Leaf = Some \<lparr>leaf_MerkleLeafHash = [], leaf_LeafValue = [1, 2],
                                      leaf_LeafIndex = 0\<rparr>,
                  qleaf_Status = Some \<lparr>st_Code = 6, st_Message = []\<rparr>\<rparr>\<rparr>, None), ())"
    by (simp add: stub_client_def stub_log_def TrillianClientInstance_def w0_def)
  have fresh:
    "QueueLeaf (client accepting_client) Background
       \<lparr>queueRq_LogId = logID accepting_client,
        queueRq_Leaf = Some \<lparr>leaf_MerkleLeafHash = [], leaf_LeafValue = [1, 2],
                             leaf_LeafIndex = 0\<rparr>\<rparr> (backend w0)
     = ((Some \<lparr>queueRs_QueuedLeaf =
            Some \<lparr>qleaf_Leaf = Some \<lparr>leaf_MerkleLeafHash = [], leaf_LeafValue = [1, 2],
                                      leaf_LeafIndex = 0\<rparr>,
                  qleaf_Status = Some \<lparr>st_Code = 0, st_Message = []\<rparr>\<rparr>\<rparr>, None), ())"
    by (simp add: accepting_client_def accepting_log_def stub_log_def
          TrillianClientInstance_def w0_def)
  from addLeaf_duplicate_in_status [OF dup, THEN conjunct1]
       addLeaf_duplicate_in_status [OF fresh, THEN conjunct1]
  show ?thesis by (simp add: codes_Code_def codes_defs)
qed

text \<open>
  Claim C5.  \<open>createAndInitTree\<close> (the spec's \<open>ensureTree\<close>) lists the trees first.  When
  the listing holds a tree of type \<open>LOG\<close>, the first such tree is returned and the listing
  is the only call made.  Consequently a second call returns the tree of the first call
  and makes no creation call, provided the scope is the same: the second listing shows the
  trees of the first listing in the same order, followed, when the first call had found no
  log tree, by the tree it created (of type \<open>LOG\<close>).
\<close>

theorem createAndInitTree_first_found_idempotent:
  assumes list1:
    "ListTrees adm ctx \<lparr>listRq_ShowDeleted = False\<rparr> (backend w) = ((Some ts1, None), b1)"
  shows "(\<forall>pre x post.
            listRs_Tree ts1 = pre @ x # post \<and> tree_TreeType x = TreeType_LOG
            \<and> (\<forall>y\<in>set pre. tree_TreeType y \<noteq> TreeType_LOG)
          \<longrightarrow> createAndInitTree InitLog ctx adm lc w =
                (Return (Some x, None),
                 \<lparr>backend = b1,
                  trace = trace w @ [Call_ListTrees ctx \<lparr>listRq_ShowDeleted = False\<rparr>]\<rparr>))
       \<and> (\<forall>t w1 ts2 b2 extra.
            createAndInitTree InitLog ctx adm lc w = (Return (Some t, None), w1)
            \<and> ListTrees adm ctx \<lparr>listRq_ShowDeleted = False\<rparr> (backend w1)
                = ((Some ts2, None), b2)
            \<and> listRs_Tree ts2 = listRs_Tree ts1 @ extra
            \<and> ((\<forall>y\<in>set (listRs_Tree ts1). tree_TreeType y \<noteq> TreeType_LOG)
                \<longrightarrow> (\<exists>rest. extra = t # rest) \<and> tree_TreeType t = TreeType_LOG)
          \<longrightarrow> createAndInitTree InitLog ctx adm lc w1 =
                (Return (Some t, None),
                 \<lparr>backend = b2,
                  trace = trace w1 @ [Call_ListTrees ctx \<lparr>listRq_ShowDeleted = False\<rparr>]\<rparr>))"
proof (rule conjI)
  show "\<forall>pre x post.
            listRs_Tree ts1 = pre @ x # post \<and> tree_TreeType x = TreeType_LOG
            \<and> (\<forall>y\<in>set pre. tree_TreeType y \<noteq> TreeType_LOG)
          \<longrightarrow> createAndInitTree InitLog ctx adm lc w =
                (Return (Some x, None),
                 \<lparr>backend = b1,
                  trace = trace w @ [Call_ListTrees ctx \<lparr>listRq_ShowDeleted = False\<rparr>]\<rparr>)"
    using createAndInitTree_found [OF list1] first_log_tree_split by blast
next
  show "\<forall>t w1 ts2 b2 extra.
            createAndInitTree InitLog ctx adm lc w = (Return (Some t, None), w1)
            \<and> ListTrees adm ctx \<lparr>listRq_ShowDeleted = False\<rparr> (backend w1)
                = ((Some ts2, None), b2)
            \<and> listRs_Tree ts2 = listRs_Tree ts1 @ extra
            \<and> ((\<forall>y\<in>set (listRs_Tree ts1). tree_TreeType y \<noteq> TreeType_LOG)
                \<longrightarrow> (\<exists>rest. extra = t # rest) \<and> tree_TreeType t = TreeType_LOG)
          \<longrightarrow> createAndInitTree InitLog ctx adm lc w1 =
                (Return (Some t, None),
                 \<lparr>backend = b2,
                  trace = trace w1 @ [Call_ListTrees ctx \<lparr>listRq_ShowDeleted = False\<rparr>]\<rparr>)"
  proof (intro allI impI)
    fix t w1 ts2 b2 extra
    assume a: "createAndInitTree InitLog ctx adm lc w = (Return (Some t, None), w1)
            \<and> ListTrees adm ctx \<lparr>listRq_ShowDeleted = False\<rparr> (backend w1)
                = ((Some ts2, None), b2)
            \<and> listRs_Tree ts2 = listRs_Tree ts1 @ extra
            \<and> ((\<forall>y\<in>set (listRs_Tree ts1). tree_TreeType y \<noteq> TreeType_LOG)
                \<longrightarrow> (\<exists>rest. extra = t # rest) \<and> tree_TreeType t = TreeType_LOG)"
    then have first: "createAndInitTree InitLog ctx adm lc w = (Return (Some t, None), w1)"
      and list2: "ListTrees adm ctx \<lparr>listRq_ShowDeleted = False\<rparr> (backend w1)
                = ((Some ts2, None), b2)"
      and scope: "listRs_Tree ts2 = listRs_Tree ts1 @ extra"
      and created: "(\<forall>y\<in>set (listRs_Tree ts1). tree_TreeType y \<noteq> TreeType_LOG)
                \<Longrightarrow> (\<exists>rest. extra = t # rest) \<and> tree_TreeType t = TreeType_LOG"
      by simp_all
    have "first_log_tree (listRs_Tree ts2) = Some t"
    proof (cases "first_log_tree (listRs_Tree ts1)")
      case None
      then have "(\<exists>rest. extra = t # rest) \<and> tree_TreeType t = TreeType_LOG"
        using created first_log_tree_None_iff by blast
      then have "first_log_tree extra = Some t" by auto
      then show ?thesis using None scope by (simp add: first_log_tree_append)
    next
      case (Some t')
      then have "t' = t"
        using createAndInitTree_found [OF list1 Some, of InitLog lc] first by simp
      then show ?thesis using Some scope by (simp add: first_log_tree_append)
    qed
    then show "createAndInitTree InitLog ctx adm lc w1 =
                (Return (Some t, None),
                 \<lparr>backend = b2,
                  trace = trace w1 @ [Call_ListTrees ctx \<lparr>listRq_ShowDeleted = False\<rparr>]\<rparr>)"
      using createAndInitTree_found [OF list2] by simp
  qed
qed

theorem createAndInitTree_first_found_idempotent_witness:
  "createAndInitTree stub_InitLog Background stub_admin stub_log \<lparr>backend = [], trace = []\<rparr> =
     (Return (Some stub_tree, None),
      \<lparr>backend = [stub_tree],
       trace = [Call_ListTrees Background \<lparr>listRq_ShowDeleted = False\<rparr>,
                Call_CreateTree Background new_tree_request,
                Call_InitLog Background (Some stub_tree)]\<rparr>)
   \<and> createAndInitTree stub_InitLog Background stub_admin stub_log
        \<lparr>backend = [stub_tree],
         trace = [Call_ListTrees Background \<lparr>listRq_ShowDeleted = False\<rparr>,
                  Call_CreateTree Background new_tree_request,
                  Call_InitLog Background (Some stub_tree)]\<rparr> =
     (Return (Some stub_tree, None),
      \<lparr>backend = [stub_tree],
       trace = [Call_ListTrees Background \<lparr>listRq_ShowDeleted = False\<rparr>,
                Call_CreateTree Background new_tree_request,
                Call_InitLog Background (Some stub_tree),
                Call_ListTrees Background \<lparr>listRq_ShowDeleted = False\<rparr>]\<rparr>)"
proof -
  have list1:
    "ListTrees stub_admin Background \<lparr>listRq_ShowDeleted = False\<rparr>
       (backend \<lparr>backend = ([] :: Tree list), trace = []\<rparr>)
     = ((Some \<lparr>listRs_Tree = []\<rparr>, None), [])"
    by (simp add: stub_admin_def)
  have list2:
    "ListTrees stub_admin Background \<lparr>listRq_ShowDeleted = False\<rparr>
       (backend \<lparr>backend = [stub_tree],
                trace = [Call_ListTrees Background \<lparr>listRq_ShowDeleted = False\<rparr>,
                         Call_CreateTree Background new_tree_request,
                         Call_InitLog Background (Some stub_tree)]\<rparr>)
     = ((Some \<lparr>listRs_Tree = [stub_tree]\<rparr>, None), [stub_tree])"
    by (simp add: stub_admin_def)
  have scope: "listRs_Tree \<lparr>listRs_Tree = [stub_tree]\<rparr> = listRs_Tree \<lparr>listRs_Tree = []\<rparr> @ [stub_tree]"
    by simp
  have created: "(\<forall>y\<in>set (listRs_Tree \<lparr>listRs_Tree = []\<rparr>). tree_TreeType y \<noteq> TreeType_LOG)
                \<longrightarrow> (\<exists>rest. [stub_tree] = stub_tree # rest) \<and> tree_TreeType stub_tree = TreeType_LOG"
    by (simp add: stub_tree_def)
  from createAndInitTree_first_found_idempotent [OF list1, of stub_InitLog stub_log,
      THEN conjunct2, rule_format,
      OF conjI [OF stub_create_run conjI [OF list2 conjI [OF scope created]]]]
  show ?thesis using stub_create_run by simp
qed

text \<open>
  Claim C6 (fails on the code).  The deadlines of the remote calls that each operation
  makes against the stub backend: \<open>root\<close> and \<open>getLeafByHash\<close> call with the background
  context, which has no deadline, and so does the root fetch inside \<open>getProofByHash\<close>; the
  other calls carry the 20-second deadline.
\<close>

theorem root_and_getLeafByHash_without_deadline:
  "map call_deadline (filter is_remote_call (trace (snd (root stub_deps stub_client w0))))
     = [None]
   \<and> map call_deadline (filter is_remote_call
        (trace (snd (getLeafByHash stub_client [[5]] w0)))) = [None]
   \<and> map call_deadline (filter is_remote_call
        (trace (snd (getProofByHash stub_deps stub_client [5] w0))))
     = [None, Some 20000000000]
   \<and> map call_deadline (filter is_remote_call
        (trace (snd (getLeafByIndex stub_client [0] w0)))) = [Some 20000000000]
   \<and> map call_deadline (filter is_remote_call
        (trace (snd (getLatest stub_client 0 w0)))) = [Some 20000000000]
   \<and> map call_deadline (filter is_remote_call
        (trace (snd (getConsistencyProof stub_client 2 4 w0)))) = [Some 20000000000]"
proof -
  have "trace (snd (root stub_deps stub_client w0)) =
          [Call_GetLatestSignedLogRoot Background
             \<lparr>rootRq_LogId = 7, rootRq_FirstTreeSize = 0\<rparr>]"
    by (simp add: stub_root_run)
  moreover have "trace (snd (getLeafByHash stub_client [[5]] w0)) =
          [Call_GetLeavesByHash Background \<lparr>byHashRq_LogId = 7, byHashRq_LeafHash = [[5]]\<rparr>]"
    by (simp add: getLeafByHash_def stub_client_def stub_log_def TrillianClientInstance_def
          w0_def)
  moreover have "trace (snd (getLeafByIndex stub_client [0] w0)) =
          [Call_GetLeavesByIndex (WithTimeout Background (20 * Second))
             \<lparr>byIndexRq_LogId = 7, byIndexRq_LeafIndex = [0]\<rparr>]"
    by (simp add: getLeafByIndex_def stub_client_def stub_log_def TrillianClientInstance_def
          w0_def grpc_call_def expired_def Second_def)
  moreover have "trace (snd (getLatest stub_client 0 w0)) =
          [Call_GetLatestSignedLogRoot (WithTimeout Background (20 * Second))
             \<lparr>rootRq_LogId = 7, rootRq_FirstTreeSize = 0\<rparr>]"
    by (simp add: getLatest_def stub_client_def stub_log_def TrillianClientInstance_def w0_def)
  moreover have "trace (snd (getConsistencyProof stub_client 2 4 w0)) =
          [Call_GetConsistencyProof (WithTimeout Background (20 * Second))
             \<lparr>consRq_LogId = 7, consRq_FirstTreeSize = 2, consRq_SecondTreeSize = 4\<rparr>]"
    by (simp add: getConsistencyProof_def stub_client_def stub_log_def
          TrillianClientInstance_def w0_def)
  ultimately show ?thesis
    by (simp add: stub_proof_run call_deadline_def is_remote_call_def Second_def)
qed

text \<open>
  Claim C7 (corrected).  As stated the claim fails: the outcome of \<open>getLeafByIndex\<close> when
  its deadline is exceeded is the very outcome it has when the remote side answers in time
  and itself reports a failure of code \<open>DeadlineExceeded\<close>.  Here the first backend needs 21
  seconds for the lookup, the second answers at once with that failure.
\<close>

theorem getLeafByIndex_timeout_like_remote_report:
  "expired (WithTimeout Background (20 * Second)) (21 * Second)
   \<and> \<not> expired (WithTimeout Background (20 * Second)) 0
   \<and> getLeafByIndex
        (timed_client (21 * Second) (Some \<lparr>byIndexRs_Leaves = []\<rparr>, None)) [0, 1] w0
     = getLeafByIndex
        (timed_client 0
           (None, Some (StatusError codes_DeadlineExceeded ''deadline exceeded on the server'')))
        [0, 1] w0"
  by (simp add: getLeafByIndex_def timed_client_def timed_log_def stub_log_def
        TrillianClientInstance_def w0_def grpc_call_def expired_def Second_def)

text \<open>
  Claim C7, as amended.  \<open>getLeafByIndex\<close> (the spec's \<open>getLeavesByIndex\<close>) makes its one
  remote call under a context with a deadline of 20 seconds.  When the remote side needs
  longer than that, the operation returns, with a nil error, a response without leaves
  whose \<open>status\<close> is \<open>DeadlineExceeded\<close>; when the remote side reports in time, the
  \<open>status\<close> is \<open>status.Code\<close> of what it reported.  So the status is \<open>DeadlineExceeded\<close>
  exactly when the deadline was exceeded or the remote side itself reported that code: a
  result distinct from \<open>NotFound\<close>, from \<open>OK\<close> and from a remote-reported failure of any
  other code.
\<close>

theorem getLeafByIndex_deadline_status:
  assumes "GetLeavesByIndex (client t) (WithTimeout Background (20 * Second))
             \<lparr>byIndexRq_LogId = logID t, byIndexRq_LeafIndex = indexes\<rparr> (backend w)
           = (grpc_call (WithTimeout Background (20 * Second)) latency reply, b1)"
  shows "snd (getLeafByIndex t indexes w) =
           \<lparr>backend = b1,
            trace = trace w @ [Call_GetLeavesByIndex (WithTimeout Background (20 * Second))
               \<lparr>byIndexRq_LogId = logID t, byIndexRq_LeafIndex = indexes\<rparr>]\<rparr>
       \<and> Deadline (WithTimeout Background (20 * Second)) = Some 20000000000
       \<and> (20 * Second < latency \<longrightarrow>
            fst (getLeafByIndex t indexes w) =
              Return (Some (empty_Response\<lparr>status := codes_DeadlineExceeded,
                                           getLeafByIndexResult := None\<rparr>), None))
       \<and> (latency \<le> 20 * Second \<longrightarrow>
            fst (getLeafByIndex t indexes w) =
              Return (Some (empty_Response\<lparr>status := status_Code (snd reply),
                                           getLeafByIndexResult := fst reply\<rparr>), None))
       \<and> (\<exists>R. fst (getLeafByIndex t indexes w) = Return (Some R, None)
              \<and> (status R = codes_DeadlineExceeded
                   \<longleftrightarrow> 20 * Second < latency
                       \<or> status_Code (snd reply) = codes_DeadlineExceeded))
       \<and> codes_DeadlineExceeded \<noteq> codes_NotFound
       \<and> codes_DeadlineExceeded \<noteq> codes_OK"
proof (cases "20 * Second < latency")
  case True
  then have "grpc_call (WithTimeout Background (20 * Second)) latency reply
               = (None, Some (StatusError codes_DeadlineExceeded ''context deadline exceeded''))"
    by (simp add: grpc_call_def expired_def)
  with assms True show ?thesis
    by (simp add: getLeafByIndex_def Let_def Second_def codes_defs)
next
  case False
  then have "grpc_call (WithTimeout Background (20 * Second)) latency reply = reply"
    by (simp add: grpc_call_def expired_def)
  with assms False show ?thesis
    by (cases reply) (simp add: getLeafByIndex_def Let_def Second_def codes_defs)
qed

theorem getLeafByIndex_deadline_status_witness:
  "getLeafByIndex stub_client [0, 1] w0 =
     (Return (Some (empty_Response\<lparr>status := codes_DeadlineExceeded,
                                   getLeafByIndexResult := None\<rparr>), None),
      \<lparr>backend = (),
       trace = [Call_GetLeavesByIndex (WithTimeout Background (20 * Second))
                  \<lparr>byIndexRq_LogId = 7, byIndexRq_LeafIndex = [0, 1]\<rparr>]\<rparr>)"
proof -
  have rpc:
    "GetLeavesByIndex (client stub_client) (WithTimeout Background (20 * Second))
       \<lparr>byIndexRq_LogId = logID stub_client, byIndexRq_LeafIndex = [0, 1]\<rparr> (backend w0)
     = (grpc_call (WithTimeout Background (20 * Second)) (21 * Second)
          (Some \<lparr>byIndexRs_Leaves = []\<rparr>, None), ())"
    by (simp add: stub_client_def stub_log_def TrillianClientInstance_def)
  have late: "20 * Second < 21 * Second"
    by (simp add: Second_def)
  from getLeafByIndex_deadline_status [OF rpc] late
  show ?thesis
    by (simp add: prod_eq_iff stub_client_def TrillianClientInstance_def w0_def)
qed

text \<open>
  Claim C8.  For all sizes, \<open>getConsistencyProof\<close> makes one remote call, under the
  20-second deadline, and no verifier call; it returns the remote side's error, or else the
  remote side's proof as it came.
\<close>

theorem getConsistencyProof_unverified:
  assumes "GetConsistencyProof (client t) (WithTimeout Background (20 * Second))
             \<lparr>consRq_LogId = logID t, consRq_FirstTreeSize = firstSize,
              consRq_SecondTreeSize = lastSize\<rparr> (backend w) = ((resp, err), b1)"
  shows "snd (getConsistencyProof t firstSize lastSize w) =
           \<lparr>backend = b1,
            trace = trace w @ [Call_GetConsistencyProof (WithTimeout Background (20 * Second))
               \<lparr>consRq_LogId = logID t, consRq_FirstTreeSize = firstSize,
                consRq_SecondTreeSize = lastSize\<rparr>]\<rparr>
       \<and> filter is_verifier_call (trace (snd (getConsistencyProof t firstSize lastSize w)))
           = filter is_verifier_call (trace w)
       \<and> fst (getConsistencyProof t firstSize lastSize w) =
           (case err of
              Some e \<Rightarrow> Return (None, Some e)
            | None \<Rightarrow>
                Return (Some (empty_Response\<lparr>status := codes_OK,
                                             getConsistencyProofResult := resp\<rparr>), None))"
  using assms by (simp add: getConsistencyProof_def Let_def split: option.splits)

theorem getConsistencyProof_unverified_witness:
  "getConsistencyProof stub_client 2 4 w0 =
     (Return (Some (empty_Response
        \<lparr>status := codes_OK,
         getConsistencyProofResult :=
           Some \<lparr>consRs_Proof = Some \<lparr>proof_LeafIndex = 0, proof_Hashes = [[9]]\<rparr>\<rparr>\<rparr>), None),
      \<lparr>backend = (),
       trace = [Call_GetConsistencyProof (WithTimeout Background (20 * Second))
                  \<lparr>consRq_LogId = 7, consRq_FirstTreeSize = 2, consRq_SecondTreeSize = 4\<rparr>]\<rparr>)"
  using getConsistencyProof_unverified [of stub_client 2 4 w0
      "Some \<lparr>consRs_Proof = Some \<lparr>proof_LeafIndex = 0, proof_Hashes = [[9]]\<rparr>\<rparr>" None "()"]
  by (simp add: stub_client_def stub_log_def TrillianClientInstance_def w0_def prod_eq_iff)

text \<open>
  Claim C9.  \<open>root\<close> (the spec's \<open>fetchLatestRoot\<close>) makes exactly one remote call, with no
  retry: whatever the remote side answers, the only event added to the trace is that one
  call.  It returns an error exactly when the remote call reported an error or the signed
  root blob of the answer fails to decode, and the root returned beside an error is the
  empty \<open>LogRootV1\<close>.
\<close>

theorem root_one_call_error_iff:
  assumes "GetLatestSignedLogRoot (client t) Background
             \<lparr>rootRq_LogId = logID t, rootRq_FirstTreeSize = 0\<rparr> (backend w) = ((resp, err), b1)"
  shows "snd (root d t w) =
           \<lparr>backend = b1,
            trace = trace w @ [Call_GetLatestSignedLogRoot Background
                                 \<lparr>rootRq_LogId = logID t, rootRq_FirstTreeSize = 0\<rparr>]\<rparr>
       \<and> ((\<exists>lr e. fst (root d t w) = Return (lr, Some e)) \<longleftrightarrow>
            (err \<noteq> None \<or>
             (\<exists>r slr. resp = Some r \<and> rootRs_SignedLogRoot r = Some slr
                      \<and> isl (UnmarshalBinary d (slr_LogRoot slr)))))
       \<and> (\<forall>lr e. fst (root d t w) = Return (lr, Some e) \<longrightarrow> lr = empty_LogRootV1)"
  using assms
  by (auto simp add: root_def Let_def isl_def split: prod.splits option.splits sum.splits)

theorem root_one_call_error_iff_witness:
  "snd (root stub_deps down_client w0) =
     \<lparr>backend = (),
      trace = [Call_GetLatestSignedLogRoot Background
                 \<lparr>rootRq_LogId = 7, rootRq_FirstTreeSize = 0\<rparr>]\<rparr>
   \<and> fst (root stub_deps down_client w0) = Return (empty_LogRootV1, Some unavailable)"
  using root_one_call_error_iff [of down_client w0 None "Some unavailable" "()" stub_deps]
  by (simp add: root_def down_client_def down_log_def TrillianClientInstance_def w0_def)

text \<open>
  Claim C10.  When the remote \<open>QueueLeaf\<close> call fails (an error and no response),
  \<open>addLeaf\<close> prints the error and then reads \<open>resp.QueuedLeaf\<close> from the absent response:
  the operation ends in a nil-dereference panic, so the error is not returned to the
  caller and nothing else is returned either.
\<close>

theorem addLeaf_transport_failure_panics:
  assumes "QueueLeaf (client t) Background
             \<lparr>queueRq_LogId = logID t,
              queueRq_Leaf = Some \<lparr>leaf_MerkleLeafHash = [], leaf_LeafValue = v,
                                   leaf_LeafIndex = 0\<rparr>\<rparr> (backend w) = ((None, Some e), b1)"
  shows "addLeaf t v w =
           (Panic,
            \<lparr>backend = b1,
             trace = trace w @
               [Call_QueueLeaf Background
                  \<lparr>queueRq_LogId = logID t,
                   queueRq_Leaf = Some \<lparr>leaf_MerkleLeafHash = [], leaf_LeafValue = v,
                                        leaf_LeafIndex = 0\<rparr>\<rparr>,
                Println e]\<rparr>)"
  using assms by (simp add: addLeaf_def Let_def)

theorem addLeaf_transport_failure_panics_witness:
  "addLeaf down_client [1, 2] w0 =
     (Panic,
      \<lparr>backend = (),
       trace = [Call_QueueLeaf Background
                  \<lparr>queueRq_LogId = 7,
                   queueRq_Leaf = Some \<lparr>leaf_MerkleLeafHash = [], leaf_LeafValue = [1, 2],
                                        leaf_LeafIndex = 0\<rparr>\<rparr>,
                Println unavailable]\<rparr>)"
  using addLeaf_transport_failure_panics [of down_client "[1, 2]" w0 unavailable "()"]
  by (simp add: down_client_def down_log_def TrillianClientInstance_def w0_def)

end
